theory Spec2Isabelle
  imports Complex_Main "HOL-Library.Sublist" "HOL-Library.Multiset"
begin

section \<open>Presentation layer: the score grid (IdeaScoresGrid.tsx)\<close>

subsection \<open>JavaScript numbers and their comparisons\<close>

text \<open>
  The field \<open>score\<close> of the interface \<open>BusinessIdea\<close> has the TypeScript type
  \<open>number\<close>. A \<open>number\<close> is a finite value, one of the two infinities, or NaN.
  Comparisons are exact on the finite values, so a finite value is modelled by the real
  number it denotes; every comparison with NaN is false.
\<close>

datatype number = Finite real | PosInfinity | NegInfinity | NaN

fun js_lt :: "number \<Rightarrow> number \<Rightarrow> bool" where
  "js_lt NaN _ = False"
| "js_lt _ NaN = False"
| "js_lt (Finite x) (Finite y) = (x < y)"
| "js_lt (Finite x) PosInfinity = True"
| "js_lt (Finite x) NegInfinity = False"
| "js_lt PosInfinity _ = False"
| "js_lt NegInfinity NegInfinity = False"
| "js_lt NegInfinity _ = True"

fun js_ge :: "number \<Rightarrow> number \<Rightarrow> bool" where
  "js_ge NaN _ = False"
| "js_ge _ NaN = False"
| "js_ge a b = (\<not> js_lt a b)"

text \<open>
  The scores the grid holds: \<open>ideas\<close> is written only by \<open>fetchIdeas\<close>, from the body
  of the axios response (\<open>setIdeas(response.data)\<close>), which is parsed JSON. A JSON number
  parses to a finite value, or to an infinity when it is beyond the double range; no JSON
  text parses to NaN.
\<close>

fun json_number :: "number \<Rightarrow> bool" where
  "json_number NaN = False"
| "json_number _ = True"

subsection \<open>The two colour classifications of a score\<close>

text \<open>
  The Score column's \<open>renderCell\<close>:
  \<^verbatim>\<open>
  let color = 'success.main';
  if (score < 50) { color = 'error.main'; }
  else if (score < 75) { color = 'warning.main'; }
  \<close>
\<close>

definition grid_score_color :: "number \<Rightarrow> string" where
  "grid_score_color score =
     (let color = ''success.main'' in
      if js_lt score (Finite 50) then ''error.main''
      else if js_lt score (Finite 75) then ''warning.main''
      else color)"

text \<open>
  The details dialog's header:
  \<^verbatim>\<open>
  selectedIdea.score >= 75 ? 'success.main' :
  selectedIdea.score >= 50 ? 'warning.main' : 'error.main'
  \<close>
\<close>

definition dialog_score_color :: "number \<Rightarrow> string" where
  "dialog_score_color score =
     (if js_ge score (Finite 75) then ''success.main''
      else if js_ge score (Finite 50) then ''warning.main''
      else ''error.main'')"

subsection \<open>The record the grid consumes and the search filter\<close>

text \<open>
  The interface \<open>BusinessIdea\<close>; the field \<open>id\<close> is written \<open>id_field\<close> here, and the
  three optional numbers are options.
\<close>

record BusinessIdea =
  id_field :: string
  name :: string
  industry :: string
  business_model :: string
  score :: number
  risk_flags :: "string list"
  explanation :: string
  file_id :: string
  market_size_tam :: "number option"
  competition_level :: "number option"
  founding_team_experience :: "number option"
  created_at :: string
  updated_at :: string

text \<open>
  \<open>String.prototype.trim\<close> removes the white space at both ends. Which characters are
  white space is the language's table, taken as the parameter \<open>ws\<close>.
\<close>

definition trim :: "('c \<Rightarrow> bool) \<Rightarrow> 'c list \<Rightarrow> 'c list" where
  "trim ws s = rev (dropWhile ws (rev (dropWhile ws s)))"

text \<open>
  \<open>s.includes(t)\<close>: \<open>t\<close> occurs in \<open>s\<close> as a contiguous run of characters, found by
  trying every start position from the left.
\<close>

fun str_includes :: "'c list \<Rightarrow> 'c list \<Rightarrow> bool" where
  "str_includes [] t = (t = [])"
| "str_includes (c # cs) t = (prefix t (c # cs) \<or> str_includes cs t)"

text \<open>
  The body of the search effect, as a function of the two state variables it reads; its
  result is the value passed to \<open>setFilteredIdeas\<close>. \<open>toLowerCase\<close> is the language's
  case mapping, taken as a parameter.
  \<^verbatim>\<open>
  if (searchTerm.trim() === '') { setFilteredIdeas(ideas); }
  else {
    const term = searchTerm.toLowerCase();
    const filtered = ideas.filter(idea =>
      idea.name.toLowerCase().includes(term) ||
      idea.industry.toLowerCase().includes(term) ||
      idea.business_model.toLowerCase().includes(term));
    setFilteredIdeas(filtered);
  }
  \<close>
\<close>

definition matches :: "(string \<Rightarrow> string) \<Rightarrow> string \<Rightarrow> BusinessIdea \<Rightarrow> bool" where
  "matches toLowerCase term idea =
     (str_includes (toLowerCase (name idea)) term \<or>
      str_includes (toLowerCase (industry idea)) term \<or>
      str_includes (toLowerCase (business_model idea)) term)"

definition filterIdeas ::
  "(string \<Rightarrow> string) \<Rightarrow> (char \<Rightarrow> bool) \<Rightarrow> string \<Rightarrow> BusinessIdea list \<Rightarrow> BusinessIdea list" where
  "filterIdeas toLowerCase ws searchTerm ideas =
     (if trim ws searchTerm = [] then ideas
      else let term = toLowerCase searchTerm
           in filter (matches toLowerCase term) ideas)"

text \<open>Concrete instances of the two parameters on the ASCII range, for evaluation.\<close>

definition ascii_lower_char :: "char \<Rightarrow> char" where
  "ascii_lower_char c =
     (let n = (of_char c :: nat) in if 65 \<le> n \<and> n \<le> 90 then char_of (n + 32) else c)"

definition ascii_toLowerCase :: "string \<Rightarrow> string" where
  "ascii_toLowerCase s = map ascii_lower_char s"

definition ascii_ws :: "char \<Rightarrow> bool" where
  "ascii_ws c = ((of_char c :: nat) \<in> {9, 10, 11, 12, 13, 32})"

subsection \<open>The declaration of the interface, as data\<close>

text \<open>
  Which fields a record type declares is a fact about the declaration, so the interface
  \<open>BusinessIdea\<close> is also written down as a list of field declarations: name, type, and
  whether the field is optional (\<open>?\<close>).
\<close>

datatype ts_type =
    TString | TNumber | TNull | TArray ts_type | TUnion ts_type ts_type
  | TEnum "string list" | TSet ts_type | TNamed string

record field_decl =
  field_name :: string
  field_type :: ts_type
  optional :: bool

definition fld :: "string \<Rightarrow> ts_type \<Rightarrow> bool \<Rightarrow> field_decl" where
  "fld n t opt = \<lparr>field_name = n, field_type = t, optional = opt\<rparr>"

definition BusinessIdea_interface :: "field_decl list" where
  "BusinessIdea_interface =
     [fld ''id'' TString False,
      fld ''name'' TString False,
      fld ''industry'' TString False,
      fld ''business_model'' TString False,
      fld ''score'' TNumber False,
      fld ''risk_flags'' (TArray TString) False,
      fld ''explanation'' TString False,
      fld ''file_id'' TString False,
      fld ''market_size_tam'' TNumber True,
      fld ''competition_level'' TNumber True,
      fld ''founding_team_experience'' TNumber True,
      fld ''created_at'' TString False,
      fld ''updated_at'' TString False]"

definition declared_fields :: "field_decl list \<Rightarrow> string list" where
  "declared_fields decls = map field_name decls"

definition declared_type :: "field_decl list \<Rightarrow> string \<Rightarrow> ts_type option" where
  "declared_type decls n = map_option field_type (find (\<lambda>d. field_name d = n) decls)"

text \<open>A declaration read as the triple of its name, its type and whether it is optional.\<close>

definition signature :: "field_decl \<Rightarrow> string \<times> ts_type \<times> bool" where
  "signature d = (field_name d, field_type d, optional d)"

text \<open>
  The wire contract in the specification's words (section 3, ScoredIdea), for comparison
  with the interface: the fields in the order given, with the type where one is stated.
  \<open>score: int 0..100\<close> is a \<open>number\<close> on the wire.
\<close>

definition ScoredIdea_contract :: "(string \<times> ts_type option) list" where
  "ScoredIdea_contract =
     [(''id'', None),
      (''name'', None),
      (''industry'', None),
      (''business_model'', None),
      (''score'', Some TNumber),
      (''criterion_scores'', None),
      (''risk_flags'', Some (TSet (TNamed ''RiskFlag''))),
      (''explanation'', Some (TUnion TString TNull)),
      (''explanation_status'', Some (TEnum [''OK'', ''DEGRADED'', ''PENDING'']))]"

text \<open>A small batch of ideas for evaluation.\<close>

definition example_idea :: "string \<Rightarrow> string \<Rightarrow> string \<Rightarrow> BusinessIdea" where
  "example_idea n i b =
     \<lparr>id_field = n, name = n, industry = i, business_model = b, score = Finite 60,
      risk_flags = [], explanation = [], file_id = ''f1'', market_size_tam = None,
      competition_level = None, founding_team_experience = None,
      created_at = [], updated_at = []\<rparr>"

definition example_ideas :: "BusinessIdea list" where
  "example_ideas =
     [example_idea ''PayFlow'' ''FinTech'' ''B2B'',
      example_idea ''GreenCart'' ''Retail'' ''MARKETPLACE'',
      example_idea ''Finch'' ''Health'' ''B2C'']"

section \<open>Presentation layer: the upload form (FileUploadComponent.tsx)\<close>

text \<open>The fields of a browser \<open>File\<close> that the component reads.\<close>

record File =
  file_name :: string
  file_type :: string
  file_size :: nat

record UploadResponse =
  filename :: string
  saved_as :: string
  size_bytes :: nat
  record_count :: nat
  columns :: "string list"
  status :: string
  message :: string

text \<open>The component's state variables that \<open>onDrop\<close> writes: \<open>file\<close>, \<open>error\<close> and
  \<open>success\<close> (suffixed \<open>_st\<close> here).\<close>

record UploadState =
  file_st :: "File option"
  error_st :: "string option"
  success_st :: "UploadResponse option"

definition validFileTypes :: "string list" where
  "validFileTypes =
     [''application/vnd.ms-excel'',
      ''application/vnd.openxmlformats-officedocument.spreadsheetml.sheet'',
      ''text/csv'']"

definition maxSize :: nat where
  "maxSize = 10 * 1024 * 1024"

text \<open>
  \<open>onDrop\<close>: both messages are reset, an empty list returns at once, and only the
  first file of the list is looked at.
\<close>

definition onDrop :: "File list \<Rightarrow> UploadState \<Rightarrow> UploadState" where
  "onDrop acceptedFiles st =
     (let st1 = st\<lparr>error_st := None, success_st := None\<rparr> in
      case acceptedFiles of
        [] \<Rightarrow> st1
      | selectedFile # _ \<Rightarrow>
          if file_type selectedFile \<notin> set validFileTypes
          then st1\<lparr>error_st := Some ''Please upload a valid Excel (.xlsx, .xls) or CSV (.csv) file''\<rparr>
          else if file_size selectedFile > maxSize
          then st1\<lparr>error_st := Some ''File size exceeds 10MB limit''\<rparr>
          else st1\<lparr>file_st := Some selectedFile\<rparr>)"

definition example_file :: "string \<Rightarrow> nat \<Rightarrow> File" where
  "example_file t n = \<lparr>file_name = ''ideas.csv'', file_type = t, file_size = n\<rparr>"

definition empty_state :: UploadState where
  "empty_state = \<lparr>file_st = None, error_st = None, success_st = None\<rparr>"

section \<open>Configuration: the default weights (.env.example)\<close>

text \<open>
  Modelled from the spec: the types of the data model (section 3) that the configuration
  and the pipeline share, of which no declaration is present. A criterion is known by
  its name; \<open>CriterionScores\<close> maps a criterion name to its sub-score; a
  \<open>WeightConfig\<close> maps a criterion name to its weight and is kept as the list of its
  entries.
\<close>

type_synonym criterion = string
type_synonym CriterionScores = "criterion \<Rightarrow> real"
type_synonym WeightConfig = "(criterion \<times> real) list"

text \<open>
  The weights shipped with the system, one environment variable \<open>WEIGHT_<CRITERION>\<close>
  per criterion, in the order of the file (its comment: "must sum to 100"):
  \<^verbatim>\<open>
  WEIGHT_MARKET_BUSINESS_MODEL=35
  WEIGHT_COMPETITIVE_LANDSCAPE=15
  WEIGHT_EXECUTION_TEAM=20
  WEIGHT_RISK_FACTORS=10
  WEIGHT_NETWORK_PLATFORM_RISKS=10
  WEIGHT_SOCIAL_ENVIRONMENTAL_IMPACT=10
  \<close>
\<close>

definition default_weights :: WeightConfig where
  "default_weights =
     [(''MARKET_BUSINESS_MODEL'', 35),
      (''COMPETITIVE_LANDSCAPE'', 15),
      (''EXECUTION_TEAM'', 20),
      (''RISK_FACTORS'', 10),
      (''NETWORK_PLATFORM_RISKS'', 10),
      (''SOCIAL_ENVIRONMENTAL_IMPACT'', 10)]"

section \<open>The scoring pipeline, modelled from the specification\<close>

text \<open>
  The repository's sources hold the presentation layer and the configuration only; the
  scoring pipeline that the presentation layer calls over HTTP is not among them. The
  three components below, pure functions by their contracts, are therefore written down
  from the specification's words. Numbers the specification calls float are exact reals
  here, so no rounding error of the arithmetic is modelled.
\<close>

subsection \<open>Weighting Aggregator\<close>

text \<open>
  Modelled from the spec: the rounding of the aggregator (section 4.3,
  "round-half-to-even"), of which no source is present. The value is rounded to the
  nearer of the two neighbouring integers, and to the even one when it lies exactly
  half-way.
\<close>

definition round_half_even :: "real \<Rightarrow> int" where
  "round_half_even x =
     (let f = \<lfloor>x\<rfloor>; d = x - of_int f in
      if d < 1 / 2 then f
      else if 1 / 2 < d then f + 1
      else if even f then f else f + 1)"

text \<open>
  Modelled from the spec: \<open>aggregate(scores, weights)\<close> (section 4.3), of which no source
  is present: "Overall score = round(sum of weight_i/100 * score_i) for every criterion
  present in weights". The Criterion Scorer gives every criterion a score, never null
  (section 4.2), so the scores are a total function of the criterion name; the weights are
  the entries of the configuration, one per criterion.
\<close>

definition aggregate :: "CriterionScores \<Rightarrow> WeightConfig \<Rightarrow> int" where
  "aggregate scores weights =
     round_half_even (\<Sum>(c, w) \<leftarrow> weights. w / 100 * scores c)"

text \<open>The example of section 8, and a pair of inputs whose weighted sum is a tie.\<close>

definition example_weights :: WeightConfig where
  "example_weights = [(''market'', 50), (''team'', 30), (''risk'', 20)]"

definition example_scores :: CriterionScores where
  "example_scores = (\<lambda>c. 0)(''market'' := 80, ''team'' := 60, ''risk'' := 90)"

definition tie_weights :: WeightConfig where
  "tie_weights = [(''market'', 50), (''team'', 50)]"

definition tie_scores :: CriterionScores where
  "tie_scores = (\<lambda>c. 0)(''market'' := 81, ''team'' := 80)"

subsection \<open>Pipeline construction\<close>

text \<open>
  Modelled from the spec: the two errors of the taxonomy of section 7 that the pipeline
  itself raises, and the constructed pipeline, which holds the validated weights and the
  names of the registered scorers; no source of either is present.
\<close>

datatype PipelineError = ValidationError | ConfigError

record Pipeline =
  pipeline_weights :: WeightConfig
  pipeline_scorers :: "criterion list"

text \<open>
  Modelled from the spec: the construction of the pipeline from a weight configuration
  (sections 4.3, 6 and 7), of which no source is present. It fails with \<open>ConfigError\<close>
  when the weights do not sum to exactly 100, or when a criterion of the weights has no
  scorer among the registered ones; it reads no idea, so it fails before any processing.
\<close>

definition construct_pipeline :: "criterion list \<Rightarrow> WeightConfig \<Rightarrow> PipelineError + Pipeline" where
  "construct_pipeline scorers weights =
     (if sum_list (map snd weights) \<noteq> 100 then Inl ConfigError
      else if \<not> list_all (\<lambda>c. c \<in> set scorers) (map fst weights) then Inl ConfigError
      else Inr \<lparr>pipeline_weights = weights, pipeline_scorers = scorers\<rparr>)"

text \<open>
  The six criteria of section 2 (market/business model, competitive landscape,
  execution/team, risk factors, network/platform risk, social/environmental impact), under
  the names the configuration file gives them.
\<close>

definition criteria :: "criterion list" where
  "criteria =
     [''MARKET_BUSINESS_MODEL'', ''COMPETITIVE_LANDSCAPE'', ''EXECUTION_TEAM'', ''RISK_FACTORS'',
      ''NETWORK_PLATFORM_RISKS'', ''SOCIAL_ENVIRONMENTAL_IMPACT'']"

subsection \<open>Record Normalizer\<close>

text \<open>
  Modelled from the spec: the enumeration of business models (section 3), of which no
  declaration is present.
\<close>

datatype BusinessModel = B2B | B2C | B2B2C | MARKETPLACE | PLATFORM | OTHER

text \<open>
  Modelled from the spec: the records of the normalizer (sections 3 and 4.1), of which no
  source is present. A \<open>CoercedIdea\<close> is a raw record after column matching and type
  coercion, which are not modelled: every field has been found under its canonical name,
  and a numeric field is \<open>None\<close> when the cell was blank or did not parse. A
  \<open>NormalizedIdea\<close> has the fields of section 3, the numeric ones typed \<open>float|null\<close>.
\<close>

record CoercedIdea =
  c_id :: string
  c_name :: string
  c_industry :: "string option"
  c_business_model :: "BusinessModel option"
  c_market_size_tam :: "real option"
  c_competition_level :: "real option"
  c_founding_team_experience :: "real option"

record NormalizedIdea =
  n_id :: string
  n_name :: string
  n_industry :: string
  n_business_model :: BusinessModel
  n_market_size_tam :: "real option"
  n_competition_level :: "real option"
  n_founding_team_experience :: "real option"

text \<open>
  Modelled from the spec: the median (section 4.1 names it only), of which no source is
  present: the middle value of the sorted values, or the mean of the two middle values
  when their number is even; there is none for an empty list.
\<close>

definition median :: "real list \<Rightarrow> real option" where
  "median xs =
     (let s = sort xs; n = length s in
      if n = 0 then None
      else Some (if odd n then s ! (n div 2)
                 else (s ! (n div 2 - 1) + s ! (n div 2)) / 2))"

text \<open>
  Modelled from the spec: the missing-value policy of \<open>normalize\<close> (section 4.1), of which
  no source is present. \<open>non_missing\<close> collects the values of one field that are present
  in the batch; \<open>batch_fill\<close> is the value imputed for that field, the median of the
  present values or the neutral default when there is none; \<open>impute\<close> fills one cell.
\<close>

definition non_missing :: "('r \<Rightarrow> real option) \<Rightarrow> 'r list \<Rightarrow> real list" where
  "non_missing field batch = List.map_filter field batch"

definition batch_fill :: "real \<Rightarrow> ('r \<Rightarrow> real option) \<Rightarrow> 'r list \<Rightarrow> real" where
  "batch_fill neutral field batch =
     (case median (non_missing field batch) of None \<Rightarrow> neutral | Some m \<Rightarrow> m)"

definition impute :: "real \<Rightarrow> real option \<Rightarrow> real" where
  "impute fill v = (case v of None \<Rightarrow> fill | Some x \<Rightarrow> x)"

text \<open>
  Modelled from the spec: \<open>normalize\<close> (section 4.1; written \<open>normalize_batch\<close>), of
  which no source is present. The three fill values are computed once from the whole
  batch, before any row is built (the barrier of section 5). The neutral defaults are 0
  for the monetary field \<open>market_size_tam\<close> and 5 for the two fields on the 0 to 10
  scale; categorical fields default to \<open>UNKNOWN\<close> and \<open>OTHER\<close>. The rejection of records
  without a usable name is not modelled.
\<close>

definition normalize_batch :: "CoercedIdea list \<Rightarrow> NormalizedIdea list" where
  "normalize_batch raw =
     (let tam_fill = batch_fill 0 c_market_size_tam raw;
          competition_fill = batch_fill 5 c_competition_level raw;
          team_fill = batch_fill 5 c_founding_team_experience raw
      in map (\<lambda>r.
           \<lparr>n_id = c_id r,
            n_name = c_name r,
            n_industry = (case c_industry r of None \<Rightarrow> ''UNKNOWN'' | Some i \<Rightarrow> i),
            n_business_model = (case c_business_model r of None \<Rightarrow> OTHER | Some b \<Rightarrow> b),
            n_market_size_tam = Some (impute tam_fill (c_market_size_tam r)),
            n_competition_level = Some (impute competition_fill (c_competition_level r)),
            n_founding_team_experience = Some (impute team_fill (c_founding_team_experience r))\<rparr>)
         raw)"

text \<open>
  The example of section 8: one record without \<open>market_size_tam\<close> in a batch where the
  others report 30, 10 and 20 (no record reports the other two numeric fields).
\<close>

definition coerced :: "string \<Rightarrow> real option \<Rightarrow> CoercedIdea" where
  "coerced n tam =
     \<lparr>c_id = n, c_name = n, c_industry = None, c_business_model = None,
      c_market_size_tam = tam, c_competition_level = None,
      c_founding_team_experience = None\<rparr>"

definition example_batch :: "CoercedIdea list" where
  "example_batch =
     [coerced ''A'' (Some 30), coerced ''B'' None, coerced ''C'' (Some 10), coerced ''D'' (Some 20)]"

section \<open>Properties of the score colours\<close>

lemma js_ge_finite: "s \<noteq> NaN \<Longrightarrow> js_ge s (Finite y) = (\<not> js_lt s (Finite y))"
  by (cases s) simp_all

lemma js_lt_finite_trans:
  "js_lt s (Finite x) \<Longrightarrow> x \<le> y \<Longrightarrow> js_lt s (Finite y)"
  by (cases s) simp_all

lemma json_number_iff: "json_number s \<longleftrightarrow> s \<noteq> NaN"
  by (cases s) simp_all

text \<open>
  C10: for every score the grid can hold (every number that parsed JSON can give), the
  colour of the grid's Score cell equals the colour of the dialog header, and it is
  \<open>error.main\<close> below 50, \<open>warning.main\<close> from 50 up to but excluding 75, and
  \<open>success.main\<close> from 75 on.
\<close>

theorem score_color_agree:
  assumes "json_number s"
  shows "grid_score_color s = dialog_score_color s \<and>
         grid_score_color s =
           (if js_lt s (Finite 50) then ''error.main''
            else if js_lt s (Finite 75) then ''warning.main'' else ''success.main'')"
proof -
  from assms have n: "s \<noteq> NaN" by (simp add: json_number_iff)
  have "js_lt s (Finite 50) \<Longrightarrow> js_lt s (Finite 75)"
    by (rule js_lt_finite_trans [where x = 50]) simp_all
  then show ?thesis
    using n by (auto simp: grid_score_color_def dialog_score_color_def js_ge_finite)
qed

theorem score_color_agree_witness:
  "json_number (Finite 60) \<and>
   grid_score_color (Finite 60) = dialog_score_color (Finite 60) \<and>
   grid_score_color (Finite 60) = ''warning.main'' \<and>
   json_number (Finite 49) \<and> dialog_score_color (Finite 49) = ''error.main'' \<and>
   json_number (Finite 75) \<and> dialog_score_color (Finite 75) = ''success.main'' \<and>
   json_number PosInfinity \<and> dialog_score_color PosInfinity = ''success.main''"
  using score_color_agree [of "Finite 60"] score_color_agree [of "Finite 49"]
    score_color_agree [of "Finite 75"] score_color_agree [of PosInfinity]
  by (simp add: grid_score_color_def)

section \<open>Properties of the search filter\<close>

lemma trim_empty_iff: "trim ws s = [] \<longleftrightarrow> (\<forall>c \<in> set s. ws c)"
proof
  assume h: "trim ws s = []"
  then have "dropWhile ws (rev (dropWhile ws s)) = []" by (simp add: trim_def)
  then have a: "\<forall>c \<in> set (dropWhile ws s). ws c" by simp
  show "\<forall>c \<in> set s. ws c"
  proof (cases "dropWhile ws s")
    case Nil then show ?thesis by simp
  next
    case (Cons x xs)
    then have "\<not> ws x" by (metis hd_dropWhile list.sel(1) list.distinct(1))
    with a Cons show ?thesis by simp
  qed
next
  assume "\<forall>c \<in> set s. ws c"
  then show "trim ws s = []" by (auto simp: trim_def dest: set_dropWhileD)
qed

lemma str_includes_sublist: "str_includes s t \<longleftrightarrow> sublist t s"
  by (induction s) (auto simp: sublist_Cons_right)

lemma matches_sublist:
  "matches lower t =
     (\<lambda>idea. sublist t (lower (name idea)) \<or> sublist t (lower (industry idea)) \<or>
             sublist t (lower (business_model idea)))"
  by (rule ext) (simp add: matches_def str_includes_sublist)

text \<open>
  C9: when the search term is empty or consists of white space only, the filtered list is
  the full list of ideas; otherwise it keeps exactly the ideas for which the lower-cased
  term is a contiguous substring (\<open>sublist\<close>) of the lower-cased name, industry or
  business model; in every case the filtered list is a subsequence (\<open>subseq\<close>) of the
  input list. This holds for every case mapping and every white-space table.
\<close>

theorem filterIdeas_spec:
  "((\<forall>c \<in> set searchTerm. ws c) \<longrightarrow> filterIdeas lower ws searchTerm ideas = ideas) \<and>
   (\<not> (\<forall>c \<in> set searchTerm. ws c) \<longrightarrow>
      filterIdeas lower ws searchTerm ideas =
        filter (\<lambda>idea. sublist (lower searchTerm) (lower (name idea)) \<or>
                        sublist (lower searchTerm) (lower (industry idea)) \<or>
                        sublist (lower searchTerm) (lower (business_model idea))) ideas) \<and>
   subseq (filterIdeas lower ws searchTerm ideas) ideas"
  by (simp add: filterIdeas_def trim_empty_iff matches_sublist Let_def)

theorem filterIdeas_spec_witness:
  "list_all ascii_ws ''  '' \<and>
   filterIdeas ascii_toLowerCase ascii_ws ''  '' example_ideas = example_ideas \<and>
   \<not> list_all ascii_ws '' Fin'' \<and>
   filterIdeas ascii_toLowerCase ascii_ws '' Fin'' example_ideas = [] \<and>
   filterIdeas ascii_toLowerCase ascii_ws ''Fin'' example_ideas =
     [example_idea ''PayFlow'' ''FinTech'' ''B2B'', example_idea ''Finch'' ''Health'' ''B2C''] \<and>
   subseq (filterIdeas ascii_toLowerCase ascii_ws ''Fin'' example_ideas) example_ideas"
  using filterIdeas_spec [of "''  ''" ascii_ws ascii_toLowerCase example_ideas]
    filterIdeas_spec [of "''Fin''" ascii_ws ascii_toLowerCase example_ideas]
    filterIdeas_spec [of "'' Fin''" ascii_ws ascii_toLowerCase example_ideas]
  by (simp add: example_ideas_def example_idea_def ascii_toLowerCase_def ascii_lower_char_def
        ascii_ws_def sublist_Cons_right)

section \<open>Properties of the upload form\<close>

text \<open>
  C8, as stated, fails for a dropped file that is not the first of the list \<open>onDrop\<close> is
  given. The drop zone (\<open>useDropzone\<close> with \<open>accept\<close> and \<open>maxFiles: 1\<close>) hands over only
  the files it lets through; a drop of which it lets nothing through arrives as the empty
  list, for which \<open>onDrop\<close> clears the messages and returns: the dropped file is not
  stored and no error message is set. And of a list of two files, both of a listed type
  and small enough, the second is not stored.
\<close>

theorem onDrop_silent_rejection:
  "error_st (onDrop [] empty_state) = None \<and>
   file_st (onDrop [] empty_state) = None \<and>
   file_type (example_file ''text/csv'' 20) \<in> set validFileTypes \<and>
   file_size (example_file ''text/csv'' 20) \<le> maxSize \<and>
   file_st (onDrop [example_file ''text/csv'' 10, example_file ''text/csv'' 20] empty_state) \<noteq>
     Some (example_file ''text/csv'' 20) \<and>
   error_st (onDrop [example_file ''text/csv'' 10, example_file ''text/csv'' 20] empty_state) =
     None"
  by (simp add: onDrop_def validFileTypes_def maxSize_def example_file_def empty_state_def)

text \<open>
  C8, amended: \<open>onDrop\<close> decides on the first file of the list it is given and on no
  other. For that file \<open>f\<close>: if its MIME type is one of the three listed and its size is
  at most \<open>10 * 1024 * 1024\<close> bytes, it becomes the selected file and no error message is
  set; otherwise the selected file is left as it was and an error message is set. The drop
  zone is rendered only while no file is selected; from such a state \<open>f\<close> is stored if
  and only if both conditions hold, and on rejection the selected file stays null. The
  files after the first change nothing, and for the empty list the two messages are
  cleared, the selected file is left as it was and no error message is set.
\<close>

theorem onDrop_spec:
  "(file_type f \<in> {''application/vnd.ms-excel'',
        ''application/vnd.openxmlformats-officedocument.spreadsheetml.sheet'', ''text/csv''} \<and>
     file_size f \<le> 10 * 1024 * 1024 \<longrightarrow>
       file_st (onDrop (f # fs) st) = Some f \<and> error_st (onDrop (f # fs) st) = None) \<and>
   (\<not> (file_type f \<in> {''application/vnd.ms-excel'',
        ''application/vnd.openxmlformats-officedocument.spreadsheetml.sheet'', ''text/csv''} \<and>
     file_size f \<le> 10 * 1024 * 1024) \<longrightarrow>
       file_st (onDrop (f # fs) st) = file_st st \<and> error_st (onDrop (f # fs) st) \<noteq> None) \<and>
   (file_st st = None \<longrightarrow>
      (file_st (onDrop (f # fs) st) = Some f \<longleftrightarrow>
        file_type f \<in> {''application/vnd.ms-excel'',
          ''application/vnd.openxmlformats-officedocument.spreadsheetml.sheet'', ''text/csv''} \<and>
        file_size f \<le> 10 * 1024 * 1024)) \<and>
   onDrop (f # fs) st = onDrop [f] st \<and>
   onDrop [] st = st\<lparr>error_st := None, success_st := None\<rparr>"
  by (auto simp: onDrop_def validFileTypes_def maxSize_def Let_def)

theorem onDrop_spec_witness:
  "file_st empty_state = None \<and>
   file_st (onDrop [example_file ''text/csv'' 10485760] empty_state) =
     Some (example_file ''text/csv'' 10485760) \<and>
   error_st (onDrop [example_file ''text/csv'' 10485760] empty_state) = None \<and>
   file_st (onDrop [example_file ''text/csv'' 10485761] empty_state) = None \<and>
   error_st (onDrop [example_file ''text/csv'' 10485761] empty_state) \<noteq> None \<and>
   file_st (onDrop [example_file ''image/png'' 10] empty_state) = None \<and>
   error_st (onDrop [example_file ''image/png'' 10] empty_state) \<noteq> None \<and>
   onDrop [example_file ''image/png'' 10, example_file ''text/csv'' 20] empty_state =
     onDrop [example_file ''image/png'' 10] empty_state"
  using onDrop_spec [of "example_file ''text/csv'' 10485760" "[]" empty_state]
    onDrop_spec [of "example_file ''text/csv'' 10485761" "[]" empty_state]
    onDrop_spec [of "example_file ''image/png'' 10" "[example_file ''text/csv'' 20]" empty_state]
  by (simp add: example_file_def empty_state_def onDrop_def validFileTypes_def maxSize_def)

section \<open>The record type the grid consumes\<close>

text \<open>
  C7, as stated, fails: the interface \<open>BusinessIdea\<close> declares neither
  \<open>explanation_status\<close> nor \<open>criterion_scores\<close>, so it does not carry every field of
  the contract, and it declares \<open>explanation\<close> as \<open>string\<close>, not \<open>string|null\<close>.
\<close>

theorem BusinessIdea_lacks_contract_fields:
  "\<not> (''explanation_status'' \<in> set (declared_fields BusinessIdea_interface) \<and>
      ''criterion_scores'' \<in> set (declared_fields BusinessIdea_interface)) \<and>
   \<not> set (map fst ScoredIdea_contract) \<subseteq> set (declared_fields BusinessIdea_interface) \<and>
   declared_type BusinessIdea_interface ''explanation'' \<noteq> Some (TUnion TString TNull)"
  by code_simp

text \<open>
  C7, amended: of the fields of the ScoredIdea contract, the record type the grid consumes
  declares exactly \<open>id\<close>, \<open>name\<close>, \<open>industry\<close>, \<open>business_model\<close>, \<open>score\<close>,
  \<open>risk_flags\<close> and \<open>explanation\<close>, all of them required, with the types \<open>string\<close>
  for \<open>id\<close>, \<open>name\<close>, \<open>industry\<close> and \<open>business_model\<close>, \<open>number\<close> for
  \<open>score\<close>, \<open>string[]\<close> for \<open>risk_flags\<close> and \<open>string\<close> (not \<open>string|null\<close>) for
  \<open>explanation\<close>; it declares neither \<open>criterion_scores\<close> nor \<open>explanation_status\<close>;
  beyond the contract it declares the required strings \<open>file_id\<close>, \<open>created_at\<close> and
  \<open>updated_at\<close> and the optional numbers \<open>market_size_tam\<close>, \<open>competition_level\<close> and
  \<open>founding_team_experience\<close>, and nothing else.
\<close>

theorem BusinessIdea_fields:
  "map signature
     (filter (\<lambda>d. field_name d \<in> set (map fst ScoredIdea_contract)) BusinessIdea_interface) =
     [(''id'', TString, False), (''name'', TString, False), (''industry'', TString, False),
      (''business_model'', TString, False), (''score'', TNumber, False),
      (''risk_flags'', TArray TString, False), (''explanation'', TString, False)] \<and>
   filter (\<lambda>n. n \<notin> set (declared_fields BusinessIdea_interface)) (map fst ScoredIdea_contract) =
     [''criterion_scores'', ''explanation_status''] \<and>
   map signature
     (filter (\<lambda>d. field_name d \<notin> set (map fst ScoredIdea_contract)) BusinessIdea_interface) =
     [(''file_id'', TString, False), (''market_size_tam'', TNumber, True),
      (''competition_level'', TNumber, True), (''founding_team_experience'', TNumber, True),
      (''created_at'', TString, False), (''updated_at'', TString, False)] \<and>
   distinct (declared_fields BusinessIdea_interface) \<and>
   declared_type BusinessIdea_interface ''explanation'' = Some TString \<and>
   declared_type BusinessIdea_interface ''score'' = Some TNumber \<and>
   declared_type BusinessIdea_interface ''risk_flags'' = Some (TArray TString)"
  by code_simp

section \<open>Properties of the Weighting Aggregator\<close>

lemma floor_frac_bounds:
  fixes x :: real
  shows "0 \<le> x - of_int \<lfloor>x\<rfloor>" and "x - of_int \<lfloor>x\<rfloor> < 1"
  by linarith+

lemma round_half_even_near: "\<bar>of_int (round_half_even x) - x\<bar> \<le> 1 / 2"
proof -
  note b = floor_frac_bounds [of x]
  show ?thesis
    unfolding round_half_even_def Let_def using b
    by (simp add: abs_le_iff)
qed

lemma round_half_even_tie:
  assumes "\<bar>of_int (round_half_even x) - x\<bar> = 1 / 2"
  shows "even (round_half_even x)"
proof -
  note b = floor_frac_bounds [of x]
  let ?d = "x - of_int \<lfloor>x\<rfloor>"
  consider "?d < 1 / 2" | "1 / 2 < ?d" | "?d = 1 / 2" by linarith
  then show ?thesis
  proof cases
    case 1
    then have "round_half_even x = \<lfloor>x\<rfloor>" by (simp add: round_half_even_def Let_def)
    with assms have "\<bar>of_int \<lfloor>x\<rfloor> - x\<bar> = 1 / 2" by simp
    with 1 b have False by linarith
    then show ?thesis ..
  next
    case 2
    then have "round_half_even x = \<lfloor>x\<rfloor> + 1" by (simp add: round_half_even_def Let_def)
    with assms have "\<bar>of_int \<lfloor>x\<rfloor> + 1 - x\<bar> = 1 / 2" by simp
    with 2 b have False by linarith
    then show ?thesis ..
  next
    case 3
    then show ?thesis by (simp add: round_half_even_def Let_def)
  qed
qed

lemma round_half_even_unique:
  assumes near: "\<bar>of_int r - x\<bar> \<le> 1 / 2" and tie: "\<bar>of_int r - x\<bar> = 1 / 2 \<longrightarrow> even r"
  shows "r = round_half_even x"
proof -
  note b = floor_frac_bounds [of x]
  let ?f = "\<lfloor>x\<rfloor>"
  let ?d = "x - of_int ?f"
  have r_cases: "r = ?f \<or> r = ?f + 1"
  proof -
    have "(of_int r :: real) < of_int ?f + 2" using near b by linarith
    then have "(of_int r :: real) < of_int (?f + 2)" by simp
    then have "r < ?f + 2" by (simp only: of_int_less_iff)
    moreover have "(of_int ?f :: real) - 1 < of_int r" using near b by linarith
    then have "(of_int (?f - 1) :: real) < of_int r" by simp
    then have "?f - 1 < r" by (simp only: of_int_less_iff)
    ultimately show ?thesis by linarith
  qed
  consider "?d < 1 / 2" | "1 / 2 < ?d" | "?d = 1 / 2" by linarith
  then show ?thesis
  proof cases
    case 1
    then have e: "round_half_even x = ?f" by (simp add: round_half_even_def Let_def)
    have "r \<noteq> ?f + 1" using near 1 by auto
    with r_cases e show ?thesis by simp
  next
    case 2
    then have e: "round_half_even x = ?f + 1" by (simp add: round_half_even_def Let_def)
    have "r \<noteq> ?f" using near 2 by auto
    with r_cases e show ?thesis by simp
  next
    case 3
    then have e: "round_half_even x = (if even ?f then ?f else ?f + 1)"
      by (simp add: round_half_even_def Let_def)
    from r_cases show ?thesis
    proof
      assume r: "r = ?f"
      then have "\<bar>of_int r - x\<bar> = 1 / 2" using 3 by (simp add: abs_if)
      with tie r have "even ?f" by simp
      with e r show ?thesis by simp
    next
      assume r: "r = ?f + 1"
      then have "\<bar>of_int r - x\<bar> = 1 / 2" using 3 by (simp add: abs_if)
      with tie r have "even (?f + 1)" by simp
      then have "odd ?f" by simp
      with e r show ?thesis by simp
    qed
  qed
qed

text \<open>
  C1: for every scores map and every weight configuration, \<open>aggregate scores weights\<close>
  is the weighted sum over the criteria present in the weights, \<open>weight/100 * score\<close>
  each, rounded half to even: it is within one half of the sum, it is even when it is
  exactly one half away, and it is the only integer with these two properties. For the
  weights \<open>{market:50, team:30, risk:20}\<close> and the sub-scores
  \<open>{market:80, team:60, risk:90}\<close> it is 76. (Exact arithmetic.)
\<close>

theorem aggregate_spec:
  "\<bar>of_int (aggregate scores weights) - (\<Sum>(c, w) \<leftarrow> weights. w / 100 * scores c)\<bar> \<le> 1 / 2 \<and>
   (\<bar>of_int (aggregate scores weights) - (\<Sum>(c, w) \<leftarrow> weights. w / 100 * scores c)\<bar> = 1 / 2
      \<longrightarrow> even (aggregate scores weights)) \<and>
   (\<forall>r. \<bar>of_int r - (\<Sum>(c, w) \<leftarrow> weights. w / 100 * scores c)\<bar> \<le> 1 / 2 \<and>
        (\<bar>of_int r - (\<Sum>(c, w) \<leftarrow> weights. w / 100 * scores c)\<bar> = 1 / 2 \<longrightarrow> even r)
      \<longrightarrow> r = aggregate scores weights) \<and>
   aggregate example_scores example_weights = 76"
proof -
  have ex: "aggregate example_scores example_weights = 76"
    by (simp add: aggregate_def example_scores_def example_weights_def round_half_even_def)
  show ?thesis
    unfolding aggregate_def
    using round_half_even_near round_half_even_tie round_half_even_unique ex [unfolded aggregate_def]
    by blast
qed

theorem aggregate_spec_witness:
  "aggregate tie_scores tie_weights = 80 \<and>
   (\<Sum>(c, w) \<leftarrow> tie_weights. w / 100 * tie_scores c) = 161 / 2 \<and>
   \<bar>of_int (80::int) - (161 / 2 :: real)\<bar> = 1 / 2 \<and> even (80::int)"
  using aggregate_spec [of tie_scores tie_weights]
  by (simp add: aggregate_def tie_scores_def tie_weights_def round_half_even_def Let_def)

section \<open>Properties of pipeline construction\<close>

text \<open>
  C2: for every weight configuration (and every set of registered scorers), pipeline
  construction succeeds only if the weights sum to exactly 100, and it fails with
  \<open>ConfigError\<close> whenever they do not; the default weights of the configuration file,
  35 + 15 + 20 + 10 + 10 + 10, sum to 100, and a pipeline is constructed from them.
\<close>

theorem construct_pipeline_spec:
  "(\<forall>p. construct_pipeline scorers weights = Inr p \<longrightarrow> sum_list (map snd weights) = 100) \<and>
   (sum_list (map snd weights) \<noteq> 100 \<longrightarrow> construct_pipeline scorers weights = Inl ConfigError) \<and>
   sum_list (map snd default_weights) = 35 + 15 + 20 + 10 + 10 + 10 \<and>
   sum_list (map snd default_weights) = 100 \<and>
   construct_pipeline criteria default_weights =
     Inr \<lparr>pipeline_weights = default_weights, pipeline_scorers = criteria\<rparr>"
proof -
  have s: "sum_list (map snd default_weights) = 100" by (simp add: default_weights_def)
  have l: "list_all (\<lambda>c. c \<in> set criteria) (map fst default_weights)"
    by (simp add: default_weights_def criteria_def)
  show ?thesis using s l by (auto simp: construct_pipeline_def split: if_splits)
qed

theorem construct_pipeline_spec_witness:
  "sum_list (map snd [(''market'', 50), (''team'', 30 :: real)]) \<noteq> 100 \<and>
   construct_pipeline [''market'', ''team''] [(''market'', 50), (''team'', 30)] = Inl ConfigError \<and>
   construct_pipeline [''market'', ''team'', ''risk''] example_weights =
     Inr \<lparr>pipeline_weights = example_weights, pipeline_scorers = [''market'', ''team'', ''risk'']\<rparr> \<and>
   sum_list (map snd example_weights) = 100"
  using construct_pipeline_spec [of "[''market'', ''team'']" "[(''market'', 50), (''team'', 30)]"]
    construct_pipeline_spec [of "[''market'', ''team'', ''risk'']" example_weights]
  by (simp add: construct_pipeline_def example_weights_def)

section \<open>Properties of the Record Normalizer\<close>

lemma sort_Nil_iff: "sort xs = [] \<longleftrightarrow> xs = []"
  by (metis length_0_conv length_sort)

lemma median_Nil_iff: "median xs = None \<longleftrightarrow> xs = []"
  by (simp add: median_def Let_def sort_Nil_iff)

lemma median_unfold:
  "median xs =
     (if xs = [] then None
      else Some (if odd (length xs) then sort xs ! (length xs div 2)
                 else (sort xs ! (length xs div 2 - 1) + sort xs ! (length xs div 2)) / 2))"
  by (simp add: median_def Let_def sort_Nil_iff)

text \<open>
  The median divides the values: at least half of them are at most the median, and at
  least half of them are at least the median.
\<close>

lemma filter_take_count:
  assumes "\<forall>x \<in> set (take j s). P x" and "j \<le> length s"
  shows "j \<le> length (filter P s)"
proof -
  have "filter P s = filter P (take j s) @ filter P (drop j s)"
    by (metis append_take_drop_id filter_append)
  moreover from assms(1) have "filter P (take j s) = take j s" by simp
  ultimately show ?thesis using assms(2) by simp
qed

lemma filter_drop_count:
  assumes "\<forall>x \<in> set (drop j s). P x"
  shows "length s - j \<le> length (filter P s)"
proof -
  have "filter P s = filter P (take j s) @ filter P (drop j s)"
    by (metis append_take_drop_id filter_append)
  moreover from assms have "filter P (drop j s) = drop j s" by simp
  ultimately show ?thesis by simp
qed

lemma sorted_take_le:
  assumes "sorted s" and "k < length s" and "x \<in> set (take (Suc k) s)"
  shows "x \<le> s ! k"
proof -
  from assms(3) obtain i where "i < length (take (Suc k) s)" and "take (Suc k) s ! i = x"
    by (auto simp: in_set_conv_nth)
  then have "i \<le> k" and "s ! i = x" using assms(2) by simp_all
  with assms(1,2) show ?thesis using sorted_nth_mono by blast
qed

lemma sorted_drop_ge:
  assumes "sorted s" and "x \<in> set (drop k s)"
  shows "s ! k \<le> x"
proof -
  from assms(2) obtain i where i: "i < length (drop k s)" and "drop k s ! i = x"
    by (auto simp: in_set_conv_nth)
  then have "k + i < length s" and "s ! (k + i) = x" by simp_all
  with assms(1) show ?thesis using sorted_nth_mono [of s k "k + i"] by simp
qed

lemma length_filter_sort: "length (filter P (sort xs)) = length (filter P xs)"
proof -
  have "mset (filter P (sort xs)) = mset (filter P xs)" by simp
  then show ?thesis by (metis size_mset)
qed

lemma median_halves:
  assumes "median xs = Some m"
  shows "length xs \<le> 2 * length (filter (\<lambda>x. x \<le> m) xs) \<and>
         length xs \<le> 2 * length (filter (\<lambda>x. m \<le> x) xs)"
proof -
  let ?s = "sort xs"
  let ?n = "length xs"
  have srt: "sorted ?s" by simp
  have len: "length ?s = ?n" by simp
  from assms have n0: "?n \<noteq> 0" by (auto simp: median_unfold split: if_splits)
  have below: "\<And>k. k < ?n \<Longrightarrow> ?s ! k \<le> m \<Longrightarrow> Suc k \<le> length (filter (\<lambda>x. x \<le> m) xs)"
  proof -
    fix k assume k: "k < ?n" and le: "?s ! k \<le> m"
    from k have k': "k < length ?s" by simp
    have "\<forall>x \<in> set (take (Suc k) ?s). x \<le> m"
      using sorted_take_le [OF srt k'] le by fastforce
    with k' have "Suc k \<le> length (filter (\<lambda>x. x \<le> m) ?s)"
      by (intro filter_take_count) simp_all
    then show "Suc k \<le> length (filter (\<lambda>x. x \<le> m) xs)" by (simp only: length_filter_sort)
  qed
  have above: "\<And>k. m \<le> ?s ! k \<Longrightarrow> ?n - k \<le> length (filter (\<lambda>x. m \<le> x) xs)"
  proof -
    fix k assume ge: "m \<le> ?s ! k"
    have "\<forall>x \<in> set (drop k ?s). m \<le> x"
      using sorted_drop_ge [OF srt] ge by fastforce
    then have "length ?s - k \<le> length (filter (\<lambda>x. m \<le> x) ?s)" by (rule filter_drop_count)
    then show "?n - k \<le> length (filter (\<lambda>x. m \<le> x) xs)"
      by (simp only: length_filter_sort len)
  qed
  show ?thesis
  proof (cases "odd ?n")
    case True
    with assms n0 have m: "m = ?s ! (?n div 2)" by (auto simp: median_unfold split: if_splits)
    have k: "?n div 2 < ?n" using n0 by simp
    from below [OF k] m have "Suc (?n div 2) \<le> length (filter (\<lambda>x. x \<le> m) xs)" by simp
    moreover from above [of "?n div 2"] m
    have "?n - ?n div 2 \<le> length (filter (\<lambda>x. m \<le> x) xs)" by simp
    ultimately show ?thesis by linarith
  next
    case False
    with assms n0 have m: "m = (?s ! (?n div 2 - 1) + ?s ! (?n div 2)) / 2"
      by (auto simp: median_unfold split: if_splits)
    from False n0 have n2: "2 \<le> ?n" by presburger
    then have k1: "?n div 2 - 1 < ?n" and k2: "?n div 2 < length ?s"
      and k3: "?n div 2 - 1 \<le> ?n div 2"
      by simp_all
    from sorted_nth_mono [OF srt k3 k2] have "?s ! (?n div 2 - 1) \<le> ?s ! (?n div 2)" .
    with m have lo: "?s ! (?n div 2 - 1) \<le> m" and hi: "m \<le> ?s ! (?n div 2)" by simp_all
    from below [OF k1 lo] have "Suc (?n div 2 - 1) \<le> length (filter (\<lambda>x. x \<le> m) xs)" .
    moreover from above [OF hi] have "?n - ?n div 2 \<le> length (filter (\<lambda>x. m \<le> x) xs)" .
    ultimately show ?thesis using False n2 by presburger
  qed
qed

lemma batch_fill_eq:
  "Some (batch_fill neutral field batch) =
     (if non_missing field batch = [] then Some neutral else median (non_missing field batch))"
proof (cases "median (non_missing field batch)")
  case None
  then have "non_missing field batch = []" by (simp add: median_Nil_iff)
  with None show ?thesis by (simp add: batch_fill_def)
next
  case (Some m)
  then have "non_missing field batch \<noteq> []" by (auto simp: median_Nil_iff [symmetric])
  with Some show ?thesis by (simp add: batch_fill_def)
qed

lemma normalize_batch_missing:
  assumes "i < length raw"
  shows
    "(c_market_size_tam (raw ! i) = None \<longrightarrow>
        n_market_size_tam (normalize_batch raw ! i) =
          (if non_missing c_market_size_tam raw = [] then Some 0
           else median (non_missing c_market_size_tam raw))) \<and>
     (c_competition_level (raw ! i) = None \<longrightarrow>
        n_competition_level (normalize_batch raw ! i) =
          (if non_missing c_competition_level raw = [] then Some 5
           else median (non_missing c_competition_level raw))) \<and>
     (c_founding_team_experience (raw ! i) = None \<longrightarrow>
        n_founding_team_experience (normalize_batch raw ! i) =
          (if non_missing c_founding_team_experience raw = [] then Some 5
           else median (non_missing c_founding_team_experience raw)))"
  using assms by (simp add: normalize_batch_def Let_def impute_def batch_fill_eq)

lemma example_batch_tam: "non_missing c_market_size_tam example_batch = [30, 10, 20]"
  by (simp add: non_missing_def example_batch_def coerced_def)

lemma example_batch_imputed: "n_market_size_tam (normalize_batch example_batch ! 1) = Some 20"
  by (simp add: normalize_batch_def batch_fill_def example_batch_tam median_def impute_def)
     (simp add: example_batch_def coerced_def)

text \<open>
  C3: for every batch and each of the three numeric fields, a record in which the field is
  missing receives the median of the values of that field that are present in the same
  batch, a value that depends on the whole batch and not on the row; if no record of the
  batch has the field, it receives the neutral default, 0 for \<open>market_size_tam\<close> and 5
  for the two fields on the 0 to 10 scale. A record without \<open>market_size_tam\<close> in a
  batch where the others report 10, 20 and 30 receives 20.
\<close>

theorem normalize_imputes:
  assumes "i < length raw"
  shows
    "(c_market_size_tam (raw ! i) = None \<longrightarrow>
        n_market_size_tam (normalize_batch raw ! i) =
          (if non_missing c_market_size_tam raw = [] then Some 0
           else median (non_missing c_market_size_tam raw))) \<and>
     (c_competition_level (raw ! i) = None \<longrightarrow>
        n_competition_level (normalize_batch raw ! i) =
          (if non_missing c_competition_level raw = [] then Some 5
           else median (non_missing c_competition_level raw))) \<and>
     (c_founding_team_experience (raw ! i) = None \<longrightarrow>
        n_founding_team_experience (normalize_batch raw ! i) =
          (if non_missing c_founding_team_experience raw = [] then Some 5
           else median (non_missing c_founding_team_experience raw))) \<and>
     mset (non_missing c_market_size_tam example_batch) = {#10, 20, 30#} \<and>
     median [10, 20, 30] = Some 20 \<and>
     n_market_size_tam (normalize_batch example_batch ! 1) = Some 20"
proof -
  have m: "median [10, 20, 30] = Some 20" by (simp add: median_def)
  have nm: "mset (non_missing c_market_size_tam example_batch) = {#10, 20, 30#}"
    by (simp add: example_batch_tam)
  from normalize_batch_missing [OF assms] m nm example_batch_imputed show ?thesis
    by (intro conjI) simp_all
qed

theorem normalize_imputes_witness:
  "(1::nat) < length example_batch \<and>
   c_market_size_tam (example_batch ! 1) = None \<and>
   n_market_size_tam (normalize_batch example_batch ! 1) = Some 20 \<and>
   c_competition_level (example_batch ! 1) = None \<and>
   non_missing c_competition_level example_batch = [] \<and>
   n_competition_level (normalize_batch example_batch ! 1) = Some 5"
proof -
  have h1: "(1::nat) < length example_batch" by (simp add: example_batch_def)
  have h2: "c_market_size_tam (example_batch ! 1) = None"
    by (simp add: example_batch_def coerced_def)
  have h3: "c_competition_level (example_batch ! 1) = None"
    by (simp add: example_batch_def coerced_def)
  have h4: "non_missing c_competition_level example_batch = []"
    by (simp add: example_batch_def coerced_def non_missing_def)
  note t = normalize_imputes [OF h1]
  from t have c1: "n_market_size_tam (normalize_batch example_batch ! 1) = Some 20"
    by blast
  from t h3 h4 have c2: "n_competition_level (normalize_batch example_batch ! 1) = Some 5"
    by simp
  from h1 h2 c1 h3 h4 c2 show ?thesis by (intro conjI)
qed

end
